theory Spec2Isabelle
  imports Complex_Main
begin

section \<open>Values handled by the intervention messenger\<close>

text \<open>
  The tensor library is an external collaborator of \<^verbatim>\<open>pyro/poutine/do_messenger.py\<close>.
  A tensor is kept as its shape and its elements; the elements, Python floats, are kept
  as the real numbers they denote.
  \<^verbatim>\<open>torch.tensor(x)\<close> of a Python float is the zero-dimensional tensor holding \<open>x\<close>.
\<close>

datatype tensor = Tensor (shape: "nat list") (elems: "real list")

definition torch_tensor :: "real \<Rightarrow> tensor" where
  "torch_tensor x = Tensor [] [x]"

text \<open>
  Exceptions are values. \<open>NotImplementedError\<close> carries the message the source formats;
  \<open>Exception\<close> stands for whatever a nested call of the stack applier raises.
\<close>

datatype exception =
    NotImplementedError string
  | TypeError
  | OverflowError
  | KeyError string
  | Exception string

text \<open>
  The instances of \<^verbatim>\<open>numbers.Number\<close>: \<^verbatim>\<open>int\<close>, \<^verbatim>\<open>float\<close>, \<^verbatim>\<open>bool\<close> (a subclass of
  \<^verbatim>\<open>int\<close>) and \<^verbatim>\<open>complex\<close>. \<open>PyNumeric\<close> is an instance of any other class registered
  as a number (\<^verbatim>\<open>fractions.Fraction\<close>, \<^verbatim>\<open>decimal.Decimal\<close>, a user's class), given by the
  name of its class and by what its \<^verbatim>\<open>__float__\<close> answers.
\<close>

datatype number =
    PyInt int
  | PyFloat real
  | PyBool bool
  | PyComplex complex
  | PyNumeric string "exception + real"

text \<open>\<^verbatim>\<open>int.bit_length\<close>: the number of binary digits of a natural number.\<close>

fun bit_length :: "nat \<Rightarrow> nat" where
  "bit_length n = (if n = 0 then 0 else Suc (bit_length (n div 2)))"

declare bit_length.simps [simp del]

text \<open>
  \<^verbatim>\<open>float(i)\<close> of an \<^verbatim>\<open>int\<close>: the nearest double, ties to the even mantissa. The largest
  double is \<open>2^1024 - 2^971\<close>; from the midpoint \<open>2^1024 - 2^970\<close> on an \<^verbatim>\<open>int\<close> would round
  to \<open>2^1024\<close>, and Python raises \<^verbatim>\<open>OverflowError\<close>. Below \<open>2^53\<close> the conversion is exact.
  In between, the \<^verbatim>\<open>int\<close> has \<open>53 + e\<close> binary digits, of which the last \<open>e\<close> are rounded
  away.
\<close>

definition int_as_double :: "int \<Rightarrow> exception + real" where
  "int_as_double i =
    (let a = \<bar>i\<bar> in
     if 2 ^ 1024 - 2 ^ 970 \<le> a then Inl OverflowError
     else if a < 2 ^ 53 then Inr (of_int i)
     else let e = bit_length (nat a) - 53;
              q = a div 2 ^ e;
              r = a mod 2 ^ e;
              half = 2 ^ (e - 1);
              q' = (if half < r \<or> (r = half \<and> odd q) then q + 1 else q)
          in Inr (of_int (sgn i * (q' * 2 ^ e))))"

text \<open>
  Python's \<^verbatim>\<open>float(x)\<close> on a number: the nearest double of an \<^verbatim>\<open>int\<close> or an
  \<^verbatim>\<open>OverflowError\<close>, the float itself, \<open>0.0\<close> or \<open>1.0\<close> for a \<^verbatim>\<open>bool\<close>, a \<^verbatim>\<open>TypeError\<close> on a
  \<^verbatim>\<open>complex\<close>, and the answer of \<^verbatim>\<open>__float__\<close> for any other number.
\<close>

fun py_float :: "number \<Rightarrow> exception + real" where
  "py_float (PyInt i) = int_as_double i"
| "py_float (PyFloat x) = Inr x"
| "py_float (PyBool b) = Inr (if b then 1 else 0)"
| "py_float (PyComplex z) = Inl TypeError"
| "py_float (PyNumeric c r) = r"

text \<open>
  Modelled from the spec: the classes \<^verbatim>\<open>Distribution\<close> and \<^verbatim>\<open>Delta\<close> of
  \<^verbatim>\<open>pyro.distributions\<close>, which the source imports and which are not among the source
  files. The spec asks of a distribution an \<^verbatim>\<open>event_shape\<close> (a sequence of integers) and
  gives the point mass as the constructor \<^verbatim>\<open>Delta(value, event_dim)\<close>. A \<open>Delta\<close> is itself
  a distribution; its event shape is taken to be the last \<open>event_dim\<close> dimensions of its value.
\<close>

datatype distribution =
    Distribution (family: string) (params: "tensor list") (declared_event_shape: "nat list")
  | Delta (v: tensor) (event_dim: nat)

fun event_shape :: "distribution \<Rightarrow> nat list" where
  "event_shape (Distribution f ps es) = es"
| "event_shape (Delta t k) = drop (length (shape t) - k) (shape t)"

text \<open>
  An intervention is an arbitrary Python object: the source inspects it with \<^verbatim>\<open>is None\<close>
  and \<^verbatim>\<open>isinstance\<close>. \<open>PyStr\<close> and \<open>PyObject\<close> (an instance of some other class, by the
  name of the class) are the objects outside the four supported kinds.
\<close>

datatype pyobj =
    PyNone
  | PyDistribution distribution
  | PyNumber number
  | PyTensor tensor
  | PyStr string
  | PyObject string

fun isinstance_Distribution :: "pyobj \<Rightarrow> bool" where
  "isinstance_Distribution (PyDistribution d) = True"
| "isinstance_Distribution x = False"

fun isinstance_Number :: "pyobj \<Rightarrow> bool" where
  "isinstance_Number (PyNumber n) = True"
| "isinstance_Number x = False"

fun isinstance_Tensor :: "pyobj \<Rightarrow> bool" where
  "isinstance_Tensor (PyTensor t) = True"
| "isinstance_Tensor x = False"

text \<open>\<^verbatim>\<open>type(x)\<close> as \<^verbatim>\<open>str.format\<close> prints it, for the message of the error.\<close>

fun type_name :: "pyobj \<Rightarrow> string" where
  "type_name PyNone = ''NoneType''"
| "type_name (PyDistribution d) = ''pyro.distributions.distribution.Distribution''"
| "type_name (PyNumber (PyInt i)) = ''int''"
| "type_name (PyNumber (PyFloat x)) = ''float''"
| "type_name (PyNumber (PyBool b)) = ''bool''"
| "type_name (PyNumber (PyComplex z)) = ''complex''"
| "type_name (PyNumber (PyNumeric c r)) = c"
| "type_name (PyTensor t) = ''torch.Tensor''"
| "type_name (PyStr s) = ''str''"
| "type_name (PyObject c) = c"

definition type_repr :: "pyobj \<Rightarrow> string" where
  "type_repr x = ''<class '' @ [CHR 0x27] @ type_name x @ [CHR 0x27] @ ''>''"

section \<open>Messages and the world around a hook\<close>

text \<open>
  A message is the dictionary one primitive statement hands to the messengers. The fields
  are those of the spec's data model; \<open>intervener_id\<close> is the key \<^verbatim>\<open>_intervener_id\<close>, read
  with \<^verbatim>\<open>msg.get('_intervener_id', None)\<close>, so an absent key and a stored \<^verbatim>\<open>None\<close> are both
  \<open>None\<close>. \<open>fn\<close> is the distribution (the key \<^verbatim>\<open>fn\<close>), \<open>continuation\<close> an opaque reference to
  a callback. Field values are immutable, so the shallow copy \<^verbatim>\<open>msg.copy()\<close> is the record
  itself.
\<close>

datatype msg_kind = SAMPLE | OBSERVE | PARAM

record message =
  kind :: msg_kind
  name :: string
  fn :: distribution
  "value" :: "tensor option"
  is_observed :: bool
  "done" :: bool
  stop :: bool
  continuation :: "nat option"
  intervener_id :: "string option"
  scratch :: "(string \<times> pyobj) list"

text \<open>
  What a hook can change besides its message: the warnings emitted so far, the sites
  that completed runs of the stack applier have produced, and the state of the random
  number generator.
\<close>

datatype warning = RuntimeWarning string

record world =
  warnings :: "warning list"
  sites :: "message list"
  rng :: nat

definition warnings_warn :: "warning \<Rightarrow> world \<Rightarrow> world" where
  "warnings_warn x w = w\<lparr>warnings := warnings w @ [x]\<rparr>"

text \<open>
  A call either returns or raises; in both cases the state it leaves behind is kept,
  since the message is mutated in place and the mutations made before a \<^verbatim>\<open>raise\<close> stay.
\<close>

datatype 'a result = Returned (state_of: 'a) | Raised exception (state_of: 'a)

section \<open>The intervention messenger\<close>

text \<open>
  \<^verbatim>\<open>DoMessenger.__init__\<close>: the mapping \<^verbatim>\<open>data\<close> from site names to interventions (a key may
  be mapped to \<^verbatim>\<open>None\<close>, which is \<open>Some PyNone\<close>) and the identity \<^verbatim>\<open>str(id(self))\<close>.
\<close>

datatype do_messenger =
  DoMessenger (data: "string \<Rightarrow> pyobj option") (self_intervener_id: string)

text \<open>
  Lines 70 to 94 of \<^verbatim>\<open>DoMessenger._pyro_sample\<close>, run once the fork has returned: look the
  intervention up, mangle the name, and dispatch on the type of the intervention.
\<close>

definition apply_intervention :: "do_messenger \<Rightarrow> message \<Rightarrow> world \<Rightarrow> (message \<times> world) result" where
  "apply_intervention self msg w =
    (case data self (name msg) of
       None \<Rightarrow> Raised (KeyError (name msg)) (msg, w)
     | Some intervention0 \<Rightarrow>
        let msg2 = msg\<lparr>name := name msg @ ''__CF''\<rparr>;
            intervention = (if intervention0 = PyNone then PyDistribution (fn msg2) else intervention0)
        in (case intervention of
              PyDistribution d \<Rightarrow>
                Returned (msg2\<lparr>done := False, value := None, is_observed := False, fn := d\<rparr>, w)
            | PyNumber n \<Rightarrow>
                (case py_float n of
                   Inl e \<Rightarrow> Raised e (msg2, w)
                 | Inr x \<Rightarrow>
                     Returned (msg2\<lparr>value := Some (torch_tensor x),
                                     fn := Delta (torch_tensor x) (length (event_shape (fn msg2))),
                                     is_observed := True\<rparr>, w))
            | PyTensor t \<Rightarrow>
                Returned (msg2\<lparr>value := Some t,
                                fn := Delta t (length (event_shape (fn msg2))),
                                is_observed := True\<rparr>, w)
            | _ \<Rightarrow>
                Raised (NotImplementedError
                         (''Interventions of type '' @ type_repr intervention @ '' not implemented''))
                       (msg2, w)))"

text \<open>
  Lines 58 to 62: the warning about a second intervention, emitted when the message
  already carries an \<open>intervener_id\<close>. The two string literals of the source are adjacent,
  so no blank follows the comma.
\<close>

definition warn_if_stamped :: "message \<Rightarrow> world \<Rightarrow> world" where
  "warn_if_stamped msg w =
    (if intervener_id msg \<noteq> None
     then warnings_warn (RuntimeWarning
            (''Attempting to intervene on variable '' @ name msg @
             '' multiple times,this is almost certainly incorrect behavior'')) w
     else w)"

text \<open>
  \<^verbatim>\<open>DoMessenger._pyro_sample\<close>. The stack applier \<^verbatim>\<open>apply_stack\<close> (imported from
  \<^verbatim>\<open>.runtime\<close>) is a parameter: given the forked message and the world it answers \<open>None\<close>
  when the call does not come back, and otherwise the result of the call. The forked
  message is local to the hook, so only the world of the fork is kept. An exception of
  the fork propagates; the original message is stamped by then and nothing else.
\<close>

definition pyro_sample ::
  "(message \<Rightarrow> world \<Rightarrow> (message \<times> world) result option) \<Rightarrow>
   do_messenger \<Rightarrow> message \<Rightarrow> world \<Rightarrow> (message \<times> world) result option" where
  "pyro_sample apply_stack self msg w =
    (if intervener_id msg \<noteq> Some (self_intervener_id self) \<and> data self (name msg) \<noteq> None then
       let w1 = warn_if_stamped msg w;
           msg1 = msg\<lparr>intervener_id := Some (self_intervener_id self)\<rparr>;
           new_msg = msg1
       in (case apply_stack new_msg w1 of
             None \<Rightarrow> None
           | Some (Raised e (m', w2)) \<Rightarrow> Some (Raised e (msg1, w2))
           | Some (Returned (m', w2)) \<Rightarrow> Some (apply_intervention self msg1 w2))
     else Some (Returned (msg, w)))"

section \<open>The stack applier\<close>

text \<open>
  Modelled from the spec: the messenger capability of section 4.3, whose base class
  \<^verbatim>\<open>Messenger\<close> is imported from \<^verbatim>\<open>.messenger\<close> and is not among the source files. A
  messenger on the stack is the intervention messenger or some other messenger, given by
  its pre-hook and its post-hook. The intervention messenger defines a hook for sample
  messages only and no post-hook, so it passes every other message through.
\<close>

datatype messenger =
    DoM do_messenger
  | OtherM "message \<Rightarrow> world \<Rightarrow> (message \<times> world) result"
           "message \<Rightarrow> world \<Rightarrow> (message \<times> world) result"

fun pre_hook ::
  "(message \<Rightarrow> world \<Rightarrow> (message \<times> world) result option) \<Rightarrow>
   messenger \<Rightarrow> message \<Rightarrow> world \<Rightarrow> (message \<times> world) result option" where
  "pre_hook ap (DoM d) m w =
     (if kind m = SAMPLE then pyro_sample ap d m w else Some (Returned (m, w)))"
| "pre_hook ap (OtherM pre post) m w = Some (pre m w)"

fun post_hook :: "messenger \<Rightarrow> message \<Rightarrow> world \<Rightarrow> (message \<times> world) result" where
  "post_hook (DoM d) m w = Returned (m, w)"
| "post_hook (OtherM pre post) m w = post m w"

text \<open>
  Modelled from the spec: phase 1 of the Stack Applier (section 4.2), over the messengers
  from the most recently pushed one on. Each pre-hook is invoked with the message; once
  a hook leaves \<open>done\<close> set, the traversal stops early. An exception of a hook propagates.
\<close>

fun phase1 ::
  "(message \<Rightarrow> world \<Rightarrow> (message \<times> world) result option) \<Rightarrow>
   messenger list \<Rightarrow> message \<Rightarrow> world \<Rightarrow> (message \<times> world) result option" where
  "phase1 ap [] m w = Some (Returned (m, w))"
| "phase1 ap (h # hs) m w =
     (case pre_hook ap h m w of
        None \<Rightarrow> None
      | Some (Raised e s) \<Rightarrow> Some (Raised e s)
      | Some (Returned (m', w')) \<Rightarrow>
          if done m' then Some (Returned (m', w')) else phase1 ap hs m' w')"

text \<open>
  Modelled from the spec: the primitive execution of section 4.2. An observed message
  keeps its externally supplied value; any other message gets a fresh draw from its
  distribution. \<open>draw\<close> is the sampler of the numeric backend, a parameter: the draw
  depends on the distribution and on the state of the generator, which advances.
  Afterwards \<open>done\<close> is set.
\<close>

definition primitive ::
  "(distribution \<Rightarrow> nat \<Rightarrow> tensor) \<Rightarrow> message \<Rightarrow> world \<Rightarrow> message \<times> world" where
  "primitive draw m w =
     (if is_observed m then (m\<lparr>done := True\<rparr>, w)
      else (m\<lparr>value := Some (draw (fn m) (rng w)), done := True\<rparr>, w\<lparr>rng := Suc (rng w)\<rparr>))"

text \<open>
  Modelled from the spec: phase 2 of the Stack Applier, the post-hooks in the reverse of
  the order of phase 1.
\<close>

fun phase2 :: "messenger list \<Rightarrow> message \<Rightarrow> world \<Rightarrow> (message \<times> world) result" where
  "phase2 [] m w = Returned (m, w)"
| "phase2 (h # hs) m w =
     (case post_hook h m w of
        Raised e s \<Rightarrow> Raised e s
      | Returned (m', w') \<Rightarrow> phase2 hs m' w')"

text \<open>
  Modelled from the spec: \<^verbatim>\<open>apply_stack\<close> of \<^verbatim>\<open>pyro/poutine/runtime.py\<close>, the Stack Applier
  of section 4.2, which is not among the source files. The stack lists the messengers in
  the order they were pushed, so phase 1 walks it reversed and phase 2 as it is; the
  primitive is skipped when phase 1 ended with \<open>done\<close> set. Each completed run yields one
  site, the finished message, appended to \<open>sites\<close>.

  A hook may call the applier again (the fork of the intervention messenger), so the
  applier is re-entrant and nothing bounds the nesting beforehand. The first argument
  bounds the depth of nested calls; \<open>None\<close> says that the bound was too small for the
  call to come back.
\<close>

primrec apply_stack ::
  "nat \<Rightarrow> (distribution \<Rightarrow> nat \<Rightarrow> tensor) \<Rightarrow> messenger list \<Rightarrow>
   message \<Rightarrow> world \<Rightarrow> (message \<times> world) result option" where
  "apply_stack 0 draw stack m w = None"
| "apply_stack (Suc k) draw stack m w =
     (case phase1 (apply_stack k draw stack) (rev stack) m w of
        None \<Rightarrow> None
      | Some (Raised e s) \<Rightarrow> Some (Raised e s)
      | Some (Returned (m1, w1)) \<Rightarrow>
          (case (if done m1 then (m1, w1) else primitive draw m1 w1) of
             (m2, w2) \<Rightarrow>
               (case phase2 stack m2 w2 of
                  Raised e s \<Rightarrow> Some (Raised e s)
                | Returned (m3, w3) \<Rightarrow> Some (Returned (m3, w3\<lparr>sites := sites w3 @ [m3]\<rparr>)))))"

section \<open>Concrete inputs\<close>

text \<open>
  The model of the docstring: a site \<open>z\<close> drawing from \<open>Normal(x, s)\<close> with \<open>x = 0\<close> and
  \<open>s = 0.5\<close>, a fresh message for it, and an empty world.
\<close>

definition normal_x_s :: distribution where
  "normal_x_s = Distribution ''Normal'' [torch_tensor 0, torch_tensor (1/2)] []"

definition msg_z :: message where
  "msg_z = \<lparr>kind = SAMPLE, name = ''z'', fn = normal_x_s, value = None, is_observed = False,
            done = False, stop = False, continuation = None, intervener_id = None,
            scratch = []\<rparr>"

definition world0 :: world where
  "world0 = \<lparr>warnings = [], sites = [], rng = 0\<rparr>"

text \<open>A stack applier that returns at once, leaving message and world as they are.\<close>

definition apply_return :: "message \<Rightarrow> world \<Rightarrow> (message \<times> world) result option" where
  "apply_return m w = Some (Returned (m, w))"

text \<open>\<^verbatim>\<open>DoMessenger(data={"z": 2.0})\<close>, with \<open>140\<close> for its \<^verbatim>\<open>str(id(self))\<close>.\<close>

definition do_z_float :: do_messenger where
  "do_z_float = DoMessenger (Map.empty(''z'' \<mapsto> PyNumber (PyFloat 2))) ''140''"




definition do_z_tensor :: do_messenger where
  "do_z_tensor = DoMessenger (Map.empty(''z'' \<mapsto> PyTensor (Tensor [2] [3, 4]))) ''140''"

definition do_z_str :: do_messenger where
  "do_z_str = DoMessenger (Map.empty(''z'' \<mapsto> PyStr ''two'')) ''140''"

definition do_z_huge :: do_messenger where
  "do_z_huge = DoMessenger (Map.empty(''z'' \<mapsto> PyNumber (PyInt (10 ^ 400)))) ''140''"

definition do_z_complex :: do_messenger where
  "do_z_complex = DoMessenger (Map.empty(''z'' \<mapsto> PyNumber (PyComplex (Complex 1 2)))) ''140''"

text \<open>
  A second instance, \<^verbatim>\<open>DoMessenger(data={"z": 1.0})\<close> with the identity \<open>139\<close>, and a message
  for \<open>z\<close> that is already resolved: \<open>done\<close> is set and the value is \<open>5.0\<close>.
\<close>

definition do_outer :: do_messenger where
  "do_outer = DoMessenger (Map.empty(''z'' \<mapsto> PyNumber (PyFloat 1))) ''139''"


text \<open>A sampler for the examples: the draw is the state of the generator.\<close>

definition draw_seed :: "distribution \<Rightarrow> nat \<Rightarrow> tensor" where
  "draw_seed d n = torch_tensor (real n)"

section \<open>Coercion of integers\<close>

lemma int_as_double_exact: "\<bar>i\<bar> < 2 ^ 53 \<Longrightarrow> int_as_double i = Inr (of_int i)"
  by (simp add: int_as_double_def)

lemma int_as_double_overflow:
  "2 ^ 1024 - 2 ^ 970 \<le> \<bar>i\<bar> \<Longrightarrow> int_as_double i = Inl OverflowError"
  by (simp add: int_as_double_def)

lemma int_as_double_rounds: "int_as_double (2 ^ 53 + 1) = Inr (2 ^ 53)"
  by (simp add: int_as_double_def bit_length.simps Let_def)

section \<open>The skip branch\<close>

text \<open>
  Claim C8. A message whose name is not a key of the intervention mapping, or whose
  \<open>intervener_id\<close> already is the identity of this instance, comes back from the pre-hook
  with every field as it was: the hook returns at once, without a fork and without a
  warning, so the world is unchanged too.
\<close>

theorem pyro_sample_skip:
  "data self (name msg) = None \<or> intervener_id msg = Some (self_intervener_id self) \<Longrightarrow>
   pyro_sample ap self msg w = Some (Returned (msg, w))"
  by (auto simp: pyro_sample_def)

theorem pyro_sample_skip_witness:
  "pyro_sample apply_return do_z_float (msg_z\<lparr>name := ''x''\<rparr>) world0
     = Some (Returned (msg_z\<lparr>name := ''x''\<rparr>, world0)) \<and>
   pyro_sample apply_return do_z_float (msg_z\<lparr>intervener_id := Some ''140''\<rparr>) world0
     = Some (Returned (msg_z\<lparr>intervener_id := Some ''140''\<rparr>, world0))"
proof -
  have a: "data do_z_float (name (msg_z\<lparr>name := ''x''\<rparr>)) = None"
    by (simp add: do_z_float_def)
  have b: "intervener_id (msg_z\<lparr>intervener_id := Some ''140''\<rparr>)
             = Some (self_intervener_id do_z_float)"
    by (simp add: do_z_float_def)
  show ?thesis
    using pyro_sample_skip [of do_z_float "msg_z\<lparr>name := ''x''\<rparr>" apply_return world0]
          pyro_sample_skip [of do_z_float "msg_z\<lparr>intervener_id := Some ''140''\<rparr>" apply_return world0]
          a b
    by simp
qed

section \<open>Renaming\<close>



section \<open>Intervening with a distribution\<close>



section \<open>Intervening with a number or a tensor\<close>

text \<open>
  Claim C4. For a number or a tensor as the intervention the pre-hook is to set the value
  of the message to that tensor (a number coerced to a single-element float tensor
  first), its distribution to the point mass at it and \<open>is_observed\<close> to true. The code
  does not do so for every number: \<^verbatim>\<open>1+2j\<close> is an instance of \<^verbatim>\<open>numbers.Number\<close>, so the hook
  takes the branch of line 85, and \<^verbatim>\<open>float(intervention)\<close> on line 88 raises \<^verbatim>\<open>TypeError\<close>.
  The message is stamped and renamed by then; it has no value, its distribution is the
  original one and \<open>is_observed\<close> is still false. The branch that rejects an unsupported
  intervention (lines 92 to 94) is not reached.
\<close>

theorem pyro_sample_complex_raises:
  "data do_z_complex (name msg_z) = Some (PyNumber (PyComplex (Complex 1 2))) \<and>
   isinstance_Number (PyNumber (PyComplex (Complex 1 2))) \<and>
   pyro_sample apply_return do_z_complex msg_z world0 =
     Some (Raised TypeError (msg_z\<lparr>intervener_id := Some ''140'', name := ''z__CF''\<rparr>, world0)) \<and>
   value (msg_z\<lparr>intervener_id := Some ''140'', name := ''z__CF''\<rparr>) = None \<and>
   fn (msg_z\<lparr>intervener_id := Some ''140'', name := ''z__CF''\<rparr>) = normal_x_s \<and>
   is_observed (msg_z\<lparr>intervener_id := Some ''140'', name := ''z__CF''\<rparr>) = False"
  by (simp add: pyro_sample_def apply_intervention_def apply_return_def warn_if_stamped_def
        do_z_complex_def msg_z_def Let_def)

text \<open>
  The same line raises \<^verbatim>\<open>OverflowError\<close> on an \<^verbatim>\<open>int\<close> beyond the range of a double.
\<close>

lemma pyro_sample_overflow_raises:
  "isinstance_Number (PyNumber (PyInt (10 ^ 400))) \<and>
   pyro_sample apply_return do_z_huge msg_z world0 =
     Some (Raised OverflowError (msg_z\<lparr>intervener_id := Some ''140'', name := ''z__CF''\<rparr>, world0))"
proof -
  have "int_as_double (10 ^ 400) = Inl OverflowError"
    by (rule int_as_double_overflow) simp
  then show ?thesis
    by (simp add: pyro_sample_def apply_intervention_def apply_return_def warn_if_stamped_def
          do_z_huge_def msg_z_def Let_def)
qed

text \<open>
  Where \<^verbatim>\<open>float\<close> does convert the number, and for a tensor, the branch does what is asked
  of it. Let the intervention for the name of the message be a tensor \<open>t\<close>, or a number
  that \<^verbatim>\<open>float\<close> converts to \<open>x\<close>, with \<open>t\<close> the zero-dimensional tensor holding \<open>x\<close>. Once the
  fork has returned, the pre-hook returns the message stamped and renamed, with \<open>t\<close> as
  its value, \<open>Delta t\<close> as its distribution, the \<open>event_dim\<close> of which is the length of the
  event shape of the original distribution, and \<open>is_observed\<close> true.
\<close>

lemma pyro_sample_point:
  assumes "data self (name msg) = Some i"
      and "i = PyTensor t \<or> (\<exists>n x. i = PyNumber n \<and> py_float n = Inr x \<and> t = torch_tensor x)"
      and "intervener_id msg \<noteq> Some (self_intervener_id self)"
      and "ap (msg\<lparr>intervener_id := Some (self_intervener_id self)\<rparr>) (warn_if_stamped msg w)
             = Some (Returned (mf, w2))"
  shows "pyro_sample ap self msg w =
           Some (Returned (msg\<lparr>intervener_id := Some (self_intervener_id self),
                            name := name msg @ ''__CF'',
                            value := Some t, fn := Delta t (length (event_shape (fn msg))),
                            is_observed := True\<rparr>, w2))"
  using assms
  by (auto simp: pyro_sample_def apply_intervention_def Let_def)

lemma pyro_sample_point_example:
  "data do_z_float (name msg_z) = Some (PyNumber (PyFloat 2)) \<and>
   py_float (PyFloat 2) = Inr 2 \<and>
   intervener_id msg_z \<noteq> Some (self_intervener_id do_z_float) \<and>
   pyro_sample apply_return do_z_float msg_z world0 =
     Some (Returned (msg_z\<lparr>intervener_id := Some ''140'', name := ''z__CF'',
                      value := Some (torch_tensor 2),
                      fn := Delta (torch_tensor 2) (length (event_shape normal_x_s)),
                      is_observed := True\<rparr>, world0)) \<and>
   data do_z_tensor (name msg_z) = Some (PyTensor (Tensor [2] [3, 4])) \<and>
   pyro_sample apply_return do_z_tensor msg_z world0 =
     Some (Returned (msg_z\<lparr>intervener_id := Some ''140'', name := ''z__CF'',
                      value := Some (Tensor [2] [3, 4]),
                      fn := Delta (Tensor [2] [3, 4]) (length (event_shape normal_x_s)),
                      is_observed := True\<rparr>, world0))"
proof -
  have f1: "data do_z_float (name msg_z) = Some (PyNumber (PyFloat 2))"
    by (simp add: do_z_float_def msg_z_def)
  have f2: "PyNumber (PyFloat 2) = PyTensor (torch_tensor 2) \<or>
            (\<exists>n x. PyNumber (PyFloat 2) = PyNumber n \<and> py_float n = Inr x \<and> torch_tensor 2 = torch_tensor x)"
    by simp
  have f3: "intervener_id msg_z \<noteq> Some (self_intervener_id do_z_float)"
    by (simp add: msg_z_def)
  have f4: "apply_return (msg_z\<lparr>intervener_id := Some (self_intervener_id do_z_float)\<rparr>)
              (warn_if_stamped msg_z world0)
            = Some (Returned (msg_z\<lparr>intervener_id := Some (self_intervener_id do_z_float)\<rparr>, world0))"
    by (simp add: apply_return_def warn_if_stamped_def msg_z_def)
  have t1: "data do_z_tensor (name msg_z) = Some (PyTensor (Tensor [2] [3, 4]))"
    by (simp add: do_z_tensor_def msg_z_def)
  have t2: "PyTensor (Tensor [2] [3, 4]) = PyTensor (Tensor [2] [3, 4]) \<or>
            (\<exists>n x. PyTensor (Tensor [2] [3, 4]) = PyNumber n \<and> py_float n = Inr x \<and>
                   Tensor [2] [3, 4] = torch_tensor x)"
    by simp
  have t3: "intervener_id msg_z \<noteq> Some (self_intervener_id do_z_tensor)"
    by (simp add: msg_z_def)
  have t4: "apply_return (msg_z\<lparr>intervener_id := Some (self_intervener_id do_z_tensor)\<rparr>)
              (warn_if_stamped msg_z world0)
            = Some (Returned (msg_z\<lparr>intervener_id := Some (self_intervener_id do_z_tensor)\<rparr>, world0))"
    by (simp add: apply_return_def warn_if_stamped_def msg_z_def)
  have nm: "name msg_z @ ''__CF'' = ''z__CF''" by (simp add: msg_z_def)
  have fnz: "fn msg_z = normal_x_s" by (simp add: msg_z_def)
  have idf: "self_intervener_id do_z_float = ''140''" by (simp add: do_z_float_def)
  have idt: "self_intervener_id do_z_tensor = ''140''" by (simp add: do_z_tensor_def)
  show ?thesis
    using f1 f3 t1
      pyro_sample_point [where ap = apply_return, OF f1 f2 f3 f4]
      pyro_sample_point [where ap = apply_return, OF t1 t2 t3 t4]
    by (simp add: nm fnz idf idt)
qed

text \<open>
  Claim C5. An instance constructed with the Python scalar \<open>2\<close> at a site and one
  constructed with the tensor \<^verbatim>\<open>torch.tensor(2.0)\<close> at that site (the single-element tensor
  the source coerces a number to), equal otherwise, behave alike on every message: the
  pre-hooks yield the same result, so in particular the same value and the same
  \<open>is_observed\<close>.
\<close>

theorem pyro_sample_scalar_coercion:
  "pyro_sample ap (DoMessenger (dat(s \<mapsto> PyNumber (PyInt 2))) i) msg w =
   pyro_sample ap (DoMessenger (dat(s \<mapsto> PyTensor (torch_tensor 2))) i) msg w"
  by (auto simp: pyro_sample_def apply_intervention_def int_as_double_exact Let_def
           split: option.splits result.splits)

theorem pyro_sample_scalar_coercion_witness:
  "pyro_sample apply_return (DoMessenger (Map.empty(''z'' \<mapsto> PyNumber (PyInt 2))) ''140'') msg_z world0 =
     Some (Returned (msg_z\<lparr>intervener_id := Some ''140'', name := ''z__CF'',
                      value := Some (Tensor [] [2]), fn := Delta (Tensor [] [2]) 0,
                      is_observed := True\<rparr>, world0)) \<and>
   pyro_sample apply_return (DoMessenger (Map.empty(''z'' \<mapsto> PyTensor (torch_tensor 2))) ''140'') msg_z world0 =
     Some (Returned (msg_z\<lparr>intervener_id := Some ''140'', name := ''z__CF'',
                      value := Some (Tensor [] [2]), fn := Delta (Tensor [] [2]) 0,
                      is_observed := True\<rparr>, world0))"
proof -
  have t: "pyro_sample apply_return (DoMessenger (Map.empty(''z'' \<mapsto> PyTensor (torch_tensor 2))) ''140'') msg_z world0 =
     Some (Returned (msg_z\<lparr>intervener_id := Some ''140'', name := ''z__CF'',
                      value := Some (Tensor [] [2]), fn := Delta (Tensor [] [2]) 0,
                      is_observed := True\<rparr>, world0))"
    by (simp add: pyro_sample_def apply_intervention_def apply_return_def warn_if_stamped_def
          msg_z_def normal_x_s_def torch_tensor_def Let_def)
  show ?thesis
    using t pyro_sample_scalar_coercion [of apply_return Map.empty "''z''" "''140''" msg_z world0]
    by (simp only:)
qed

section \<open>Unsupported interventions\<close>

text \<open>
  Claim C6 as stated fails: the type of the intervention is inspected last. With the
  string \<^verbatim>\<open>"two"\<close> for \<open>z\<close> the error is raised, and the message the caller is left with
  carries the stamp of the instance and the mangled name: it is not the message the
  hook was given.
\<close>

theorem pyro_sample_unsupported_counterexample:
  "pyro_sample apply_return do_z_str msg_z world0 =
     Some (Raised (NotImplementedError
                    (''Interventions of type '' @ type_repr (PyStr ''two'') @ '' not implemented''))
            (msg_z\<lparr>intervener_id := Some ''140'', name := ''z__CF''\<rparr>, world0)) \<and>
   msg_z\<lparr>intervener_id := Some ''140'', name := ''z__CF''\<rparr> \<noteq> msg_z"
  by (simp add: pyro_sample_def apply_intervention_def apply_return_def warn_if_stamped_def
        do_z_str_def msg_z_def Let_def)

text \<open>
  Claim C6, amended. Let the intervention for the name of the message be neither \<^verbatim>\<open>None\<close>
  nor a distribution, a number or a tensor. Once the fork has returned, the pre-hook
  raises \<^verbatim>\<open>NotImplementedError\<close> with the type of the intervention in its message. By then
  the message is stamped with the identity of the instance and renamed; its value, its
  distribution, \<open>done\<close> and \<open>is_observed\<close> are as they were.
\<close>

theorem pyro_sample_unsupported:
  assumes "data self (name msg) = Some i"
      and "i \<noteq> PyNone" "\<not> isinstance_Distribution i" "\<not> isinstance_Number i" "\<not> isinstance_Tensor i"
      and "intervener_id msg \<noteq> Some (self_intervener_id self)"
      and "ap (msg\<lparr>intervener_id := Some (self_intervener_id self)\<rparr>) (warn_if_stamped msg w)
             = Some (Returned (mf, w2))"
  shows "pyro_sample ap self msg w =
           Some (Raised (NotImplementedError
                          (''Interventions of type '' @ type_repr i @ '' not implemented''))
                  (msg\<lparr>intervener_id := Some (self_intervener_id self),
                        name := name msg @ ''__CF''\<rparr>, w2))"
  using assms
  by (cases i) (auto simp: pyro_sample_def apply_intervention_def Let_def)

theorem pyro_sample_unsupported_witness:
  "data do_z_str (name msg_z) = Some (PyStr ''two'') \<and>
   PyStr ''two'' \<noteq> PyNone \<and> \<not> isinstance_Distribution (PyStr ''two'') \<and>
   \<not> isinstance_Number (PyStr ''two'') \<and> \<not> isinstance_Tensor (PyStr ''two'') \<and>
   intervener_id msg_z \<noteq> Some (self_intervener_id do_z_str) \<and>
   pyro_sample apply_return do_z_str msg_z world0 =
     Some (Raised (NotImplementedError (''Interventions of type <class '' @ [CHR 0x27] @ ''str'' @
                                        [CHR 0x27] @ ''> not implemented''))
            (msg_z\<lparr>intervener_id := Some ''140'', name := ''z__CF''\<rparr>, world0))"
proof -
  have h1: "data do_z_str (name msg_z) = Some (PyStr ''two'')"
    by (simp add: do_z_str_def msg_z_def)
  have h2: "PyStr ''two'' \<noteq> PyNone" by simp
  have h3: "\<not> isinstance_Distribution (PyStr ''two'')" by simp
  have h4: "\<not> isinstance_Number (PyStr ''two'')" by simp
  have h5: "\<not> isinstance_Tensor (PyStr ''two'')" by simp
  have h6: "intervener_id msg_z \<noteq> Some (self_intervener_id do_z_str)"
    by (simp add: msg_z_def)
  have h7: "apply_return (msg_z\<lparr>intervener_id := Some (self_intervener_id do_z_str)\<rparr>)
              (warn_if_stamped msg_z world0)
            = Some (Returned (msg_z\<lparr>intervener_id := Some (self_intervener_id do_z_str)\<rparr>, world0))"
    by (simp add: apply_return_def warn_if_stamped_def msg_z_def)
  have nm: "name msg_z @ ''__CF'' = ''z__CF''" by (simp add: msg_z_def)
  have id: "self_intervener_id do_z_str = ''140''" by (simp add: do_z_str_def)
  show ?thesis
    using h1 h6 pyro_sample_unsupported [where ap = apply_return, OF h1 h2 h3 h4 h5 h6 h7]
    by (simp add: nm id type_repr_def)
qed

section \<open>A message stamped by another instance\<close>

text \<open>
  The name, the stamp and the world a message has when \<open>apply_intervention\<close> is done with
  it, whether it returned or raised.
\<close>

lemma apply_intervention_name:
  "data self (name msg) \<noteq> None \<Longrightarrow>
   name (fst (state_of (apply_intervention self msg w))) = name msg @ ''__CF''"
  by (auto simp: apply_intervention_def Let_def split: option.splits pyobj.splits sum.splits)

lemma apply_intervention_frame:
  "intervener_id (fst (state_of (apply_intervention self msg w))) = intervener_id msg \<and>
   snd (state_of (apply_intervention self msg w)) = w"
  by (auto simp: apply_intervention_def Let_def split: option.splits pyobj.splits sum.splits)

text \<open>
  Let the name of the message be a key of the mapping and its \<open>intervener_id\<close> the
  identity of another instance. The pre-hook emits one warning, naming the site, and
  from there on behaves as on the message without a stamp: the result is that of the
  unstamped message in the world with the one warning added. So the hook does not skip,
  and once the fork has returned the message carries the stamp of this instance and
  the mangled name, and the world is the one the fork left.
\<close>

lemma pyro_sample_duplicate:
  assumes "data self (name msg) \<noteq> None"
      and "intervener_id msg = Some other" and "other \<noteq> self_intervener_id self"
  shows "warn_if_stamped msg w =
           w\<lparr>warnings := warnings w @ [RuntimeWarning
               (''Attempting to intervene on variable '' @ name msg @
                '' multiple times,this is almost certainly incorrect behavior'')]\<rparr> \<and>
         pyro_sample ap self msg w =
           pyro_sample ap self (msg\<lparr>intervener_id := None\<rparr>) (warn_if_stamped msg w) \<and>
         pyro_sample ap self msg w \<noteq> Some (Returned (msg, w)) \<and>
         (\<forall>mf w2. ap (msg\<lparr>intervener_id := Some (self_intervener_id self)\<rparr>) (warn_if_stamped msg w)
                     = Some (Returned (mf, w2)) \<longrightarrow>
            (\<exists>r. pyro_sample ap self msg w = Some r \<and>
                 intervener_id (fst (state_of r)) = Some (self_intervener_id self) \<and>
                 name (fst (state_of r)) = name msg @ ''__CF'' \<and>
                 snd (state_of r) = w2))"
proof -
  have guard: "intervener_id msg \<noteq> Some (self_intervener_id self) \<and> data self (name msg) \<noteq> None"
    using assms by simp
  let ?m1 = "msg\<lparr>intervener_id := Some (self_intervener_id self)\<rparr>"
  have a: "warn_if_stamped msg w =
           w\<lparr>warnings := warnings w @ [RuntimeWarning
               (''Attempting to intervene on variable '' @ name msg @
                '' multiple times,this is almost certainly incorrect behavior'')]\<rparr>"
    using assms by (simp add: warn_if_stamped_def warnings_warn_def)
  have same_world: "warn_if_stamped (msg\<lparr>intervener_id := None\<rparr>) (warn_if_stamped msg w)
                      = warn_if_stamped msg w"
    by (simp add: warn_if_stamped_def)
  have b: "pyro_sample ap self msg w =
           pyro_sample ap self (msg\<lparr>intervener_id := None\<rparr>) (warn_if_stamped msg w)"
    using guard by (simp add: pyro_sample_def Let_def same_world)
  have nm: "name (fst (state_of (apply_intervention self ?m1 w2))) = name msg @ ''__CF''" for w2
    using guard apply_intervention_name [of self ?m1 w2] by simp
  have fr: "intervener_id (fst (state_of (apply_intervention self ?m1 w2))) = Some (self_intervener_id self)
            \<and> snd (state_of (apply_intervention self ?m1 w2)) = w2" for w2
    using apply_intervention_frame [of self ?m1 w2] by simp
  have renamed: "apply_intervention self ?m1 w2 \<noteq> Returned (msg, w)" for w2
  proof
    assume eq: "apply_intervention self ?m1 w2 = Returned (msg, w)"
    with nm [of w2] show False by simp
  qed
  have c: "pyro_sample ap self msg w \<noteq> Some (Returned (msg, w))"
    using guard renamed
    by (auto simp: pyro_sample_def Let_def split: option.splits result.splits)
  have d: "\<forall>mf w2. ap ?m1 (warn_if_stamped msg w) = Some (Returned (mf, w2)) \<longrightarrow>
            (\<exists>r. pyro_sample ap self msg w = Some r \<and>
                 intervener_id (fst (state_of r)) = Some (self_intervener_id self) \<and>
                 name (fst (state_of r)) = name msg @ ''__CF'' \<and>
                 snd (state_of r) = w2)"
    using guard nm fr by (simp add: pyro_sample_def Let_def)
  from a b c d show ?thesis by blast
qed

lemma pyro_sample_duplicate_example:
  "data do_z_float (name (msg_z\<lparr>intervener_id := Some ''139''\<rparr>)) \<noteq> None \<and>
   ''139'' \<noteq> self_intervener_id do_z_float \<and>
   pyro_sample apply_return do_z_float (msg_z\<lparr>intervener_id := Some ''139''\<rparr>) world0 =
     Some (Returned (msg_z\<lparr>intervener_id := Some ''140'', name := ''z__CF'',
                      value := Some (Tensor [] [2]), fn := Delta (Tensor [] [2]) 0,
                      is_observed := True\<rparr>,
                     world0\<lparr>warnings := [RuntimeWarning
       ''Attempting to intervene on variable z multiple times,this is almost certainly incorrect behavior'']\<rparr>))"
proof -
  have h1: "data do_z_float (name (msg_z\<lparr>intervener_id := Some ''139''\<rparr>)) \<noteq> None"
    by (simp add: do_z_float_def msg_z_def)
  have h2: "intervener_id (msg_z\<lparr>intervener_id := Some ''139''\<rparr>) = Some ''139''" by simp
  have h3: "''139'' \<noteq> self_intervener_id do_z_float" by (simp add: do_z_float_def)
  have u: "pyro_sample apply_return do_z_float (msg_z\<lparr>intervener_id := Some ''139'', intervener_id := None\<rparr>)
             (world0\<lparr>warnings := warnings world0 @ [RuntimeWarning
               (''Attempting to intervene on variable '' @ name (msg_z\<lparr>intervener_id := Some ''139''\<rparr>) @
                '' multiple times,this is almost certainly incorrect behavior'')]\<rparr>) =
     Some (Returned (msg_z\<lparr>intervener_id := Some ''140'', name := ''z__CF'',
                      value := Some (Tensor [] [2]), fn := Delta (Tensor [] [2]) 0,
                      is_observed := True\<rparr>,
                     world0\<lparr>warnings := [RuntimeWarning
       ''Attempting to intervene on variable z multiple times,this is almost certainly incorrect behavior'']\<rparr>))"
    by (simp add: pyro_sample_def apply_intervention_def apply_return_def warn_if_stamped_def
          do_z_float_def msg_z_def normal_x_s_def torch_tensor_def world0_def Let_def)
  from pyro_sample_duplicate [OF h1 h2 h3, of world0 apply_return]
  have "pyro_sample apply_return do_z_float (msg_z\<lparr>intervener_id := Some ''139''\<rparr>) world0 =
        pyro_sample apply_return do_z_float (msg_z\<lparr>intervener_id := Some ''139'', intervener_id := None\<rparr>)
             (world0\<lparr>warnings := warnings world0 @ [RuntimeWarning
               (''Attempting to intervene on variable '' @ name (msg_z\<lparr>intervener_id := Some ''139''\<rparr>) @
                '' multiple times,this is almost certainly incorrect behavior'')]\<rparr>)"
    by metis
  with u h1 h3 show ?thesis by simp
qed

section \<open>Messages that are done\<close>




section \<open>The fork under the stack applier\<close>

text \<open>
  Intervention messengers that skip a message (it carries their stamp, or its name is
  not a key of their mapping) leave it alone in phase 1; intervention messengers have no
  post-hook, so phase 2 passes the message through. A run of the applier over such a
  stack therefore comes back without a nested call: a depth of one is enough.
\<close>

lemma phase1_skipping:
  "\<forall>h \<in> set hs. \<exists>e. h = DoM e \<and>
      (intervener_id m = Some (self_intervener_id e) \<or> data e (name m) = None) \<Longrightarrow>
   phase1 ap hs m w = Some (Returned (m, w))"
  by (induction hs) (auto simp: pyro_sample_def)

lemma phase2_do_messengers:
  "\<forall>h \<in> set hs. \<exists>e. h = DoM e \<Longrightarrow> phase2 hs m w = Returned (m, w)"
  by (induction hs) auto

lemma apply_stack_skipping:
  assumes "\<forall>h \<in> set stack. \<exists>e. h = DoM e \<and>
      (intervener_id m = Some (self_intervener_id e) \<or> data e (name m) = None)"
  shows "apply_stack (Suc k) draw stack m w =
           Some (Returned
             (if done m then (m, w\<lparr>sites := sites w @ [m]\<rparr>)
              else (fst (primitive draw m w),
                    (snd (primitive draw m w))\<lparr>sites := sites (snd (primitive draw m w)) @
                                                    [fst (primitive draw m w)]\<rparr>)))"
proof -
  have p1: "phase1 (apply_stack k draw stack) (rev stack) m w = Some (Returned (m, w))"
    using assms by (intro phase1_skipping) simp
  have p2: "phase2 stack m' w' = Returned (m', w')" for m' w'
    using assms by (intro phase2_do_messengers) blast
  show ?thesis
    by (simp add: p1 p2 split: prod.splits)
qed




text \<open>
  Two intervention messengers with different identities and the same key \<open>z\<close>: each fork
  runs the whole stack again, where the other instance finds a foreign stamp, stamps
  the copy itself and forks in turn. No bound on the depth lets the applier come back
  from a fresh sample message for \<open>z\<close>.
\<close>

lemma apply_stack_two_instances:
  assumes "data a ''z'' \<noteq> None" and "data b ''z'' \<noteq> None"
      and "self_intervener_id a \<noteq> self_intervener_id b"
  shows "name m = ''z'' \<Longrightarrow> kind m = SAMPLE \<Longrightarrow> \<not> done m \<Longrightarrow>
         apply_stack k draw [DoM a, DoM b] m w = None"
proof (induction k arbitrary: m w)
  case 0
  then show ?case by simp
next
  case (Suc k)
  show ?case
  proof (cases "intervener_id m = Some (self_intervener_id b)")
    case True
    then show ?thesis using Suc assms
      by (simp add: pyro_sample_def Let_def)
  next
    case False
    then show ?thesis using Suc assms
      by (simp add: pyro_sample_def Let_def)
  qed
qed

text \<open>
  Claim C7. A message whose name is a key of the mapping and which carries the stamp of
  another instance is to draw one warning, after which the hook proceeds: it stamps the
  message and applies its own intervention. With the other instance on the stack and
  keyed on the same site this is not what happens. The fork of the inner instance \<open>140\<close>
  reaches the outer instance \<open>139\<close> under the stamp \<open>140\<close>; the outer instance warns, stamps
  and forks, its fork meets the inner instance under a foreign stamp, which warns,
  stamps and forks in turn. The pre-hook of the outer instance has not returned within a
  thousand nested calls of the applier (nor within any other number, by the lemma
  above), so it applies no intervention.
\<close>

theorem pyro_sample_duplicate_recursion:
  "data do_outer (name (msg_z\<lparr>intervener_id := Some ''140''\<rparr>)) \<noteq> None \<and>
   intervener_id (msg_z\<lparr>intervener_id := Some ''140''\<rparr>) = Some (self_intervener_id do_z_float) \<and>
   self_intervener_id do_z_float \<noteq> self_intervener_id do_outer \<and>
   pyro_sample (apply_stack 1000 draw_seed [DoM do_outer, DoM do_z_float]) do_outer
     (msg_z\<lparr>intervener_id := Some ''140''\<rparr>) world0 = None"
proof -
  have a: "data do_outer ''z'' \<noteq> None" by (simp add: do_outer_def)
  have b: "data do_z_float ''z'' \<noteq> None" by (simp add: do_z_float_def)
  have c: "self_intervener_id do_outer \<noteq> self_intervener_id do_z_float"
    by (simp add: do_outer_def do_z_float_def)
  have fork: "apply_stack 1000 draw_seed [DoM do_outer, DoM do_z_float]
              (msg_z\<lparr>intervener_id := Some ''140'', intervener_id := Some (self_intervener_id do_outer)\<rparr>)
              (warn_if_stamped (msg_z\<lparr>intervener_id := Some ''140''\<rparr>) world0) = None"
    by (rule apply_stack_two_instances [OF a b c]) (simp_all add: msg_z_def)
  have k: "data do_outer (name (msg_z\<lparr>intervener_id := Some ''140''\<rparr>)) \<noteq> None"
    "intervener_id (msg_z\<lparr>intervener_id := Some ''140''\<rparr>) = Some (self_intervener_id do_z_float)"
    "self_intervener_id do_z_float \<noteq> self_intervener_id do_outer"
    "intervener_id (msg_z\<lparr>intervener_id := Some ''140''\<rparr>) \<noteq> Some (self_intervener_id do_outer)"
    by (simp_all add: do_outer_def do_z_float_def msg_z_def)
  have "pyro_sample (apply_stack 1000 draw_seed [DoM do_outer, DoM do_z_float]) do_outer
     (msg_z\<lparr>intervener_id := Some ''140''\<rparr>) world0 = None"
    using k(1,4) fork by (simp add: pyro_sample_def Let_def)
  with k(1,2,3) show ?thesis by blast
qed

text \<open>
  Claim C10. The stamp is written before the copy is taken, so that the instance skips
  its own fork and the recursion through the applier has depth one. A second instance
  on the stack that intervenes on the same site defeats this: it overwrites the stamp on
  the fork, and the pre-hook of the inner instance has not returned within a thousand
  nested calls of the applier (nor within any other number, by the lemma above).
\<close>

theorem fork_recursion_two_instances:
  "data do_z_float (name msg_z) \<noteq> None \<and>
   intervener_id msg_z \<noteq> Some (self_intervener_id do_z_float) \<and>
   pyro_sample (apply_stack 1000 draw_seed [DoM do_outer, DoM do_z_float]) do_z_float msg_z world0 = None \<and>
   apply_stack 1000 draw_seed [DoM do_outer, DoM do_z_float] msg_z world0 = None"
proof -
  have a: "data do_outer ''z'' \<noteq> None" by (simp add: do_outer_def)
  have b: "data do_z_float ''z'' \<noteq> None" by (simp add: do_z_float_def)
  have c: "self_intervener_id do_outer \<noteq> self_intervener_id do_z_float"
    by (simp add: do_outer_def do_z_float_def)
  have div: "apply_stack 1000 draw_seed [DoM do_outer, DoM do_z_float] m w = None"
    if "name m = ''z''" "kind m = SAMPLE" "\<not> done m" for m w
    using apply_stack_two_instances [OF a b c that] .
  have m1: "apply_stack 1000 draw_seed [DoM do_outer, DoM do_z_float]
              (msg_z\<lparr>intervener_id := Some (self_intervener_id do_z_float)\<rparr>)
              (warn_if_stamped msg_z world0) = None"
    by (rule div) (simp_all add: msg_z_def)
  have m0: "apply_stack 1000 draw_seed [DoM do_outer, DoM do_z_float] msg_z world0 = None"
    by (rule div) (simp_all add: msg_z_def)
  have k: "data do_z_float (name msg_z) \<noteq> None"
    "intervener_id msg_z \<noteq> Some (self_intervener_id do_z_float)"
    by (simp_all add: do_z_float_def msg_z_def)
  show ?thesis
    using k m0 by (simp add: pyro_sample_def Let_def m1)
qed

text \<open>
  Without such a second instance the recursion is as intended. The stamp is written
  before the copy is taken, so the fork carries it, and on a message with its stamp the
  pre-hook of the instance takes the skip branch. On a stack of intervention messengers
  on which no other instance has the name of the message as a key, the fork comes back
  from the stack applier without a nested call (a depth of one is enough), and the
  pre-hook terminates.
\<close>

lemma fork_recursion:
  assumes "data self (name msg) \<noteq> None"
      and "intervener_id msg \<noteq> Some (self_intervener_id self)"
      and "\<forall>h \<in> set stack. \<exists>e. h = DoM e \<and> (e = self \<or> data e (name msg) = None)"
  shows "pyro_sample ap self (msg\<lparr>intervener_id := Some (self_intervener_id self)\<rparr>) w' =
           Some (Returned (msg\<lparr>intervener_id := Some (self_intervener_id self)\<rparr>, w')) \<and>
         (\<exists>r. apply_stack (Suc k) draw stack (msg\<lparr>intervener_id := Some (self_intervener_id self)\<rparr>)
                 (warn_if_stamped msg w) = Some (Returned r)) \<and>
         (\<exists>r. pyro_sample (apply_stack (Suc k) draw stack) self msg w = Some r)"
proof -
  let ?m1 = "msg\<lparr>intervener_id := Some (self_intervener_id self)\<rparr>"
  have skip: "pyro_sample ap self ?m1 w' = Some (Returned (?m1, w'))"
    by (simp add: pyro_sample_def)
  have all: "\<forall>h \<in> set stack. \<exists>e. h = DoM e \<and>
      (intervener_id ?m1 = Some (self_intervener_id e) \<or> data e (name ?m1) = None)"
    using assms(3) by fastforce
  obtain r where fork: "apply_stack (Suc k) draw stack ?m1 (warn_if_stamped msg w) = Some (Returned r)"
    using apply_stack_skipping [OF all] by blast
  have "\<exists>r'. pyro_sample (apply_stack (Suc k) draw stack) self msg w = Some r'"
    using assms(1,2) fork by (cases r) (simp add: pyro_sample_def Let_def)
  with skip fork show ?thesis by blast
qed

lemma fork_recursion_example:
  "data do_z_float (name msg_z) \<noteq> None \<and>
   intervener_id msg_z \<noteq> Some (self_intervener_id do_z_float) \<and>
   pyro_sample apply_return do_z_float (msg_z\<lparr>intervener_id := Some (self_intervener_id do_z_float)\<rparr>) world0 =
     Some (Returned (msg_z\<lparr>intervener_id := Some (self_intervener_id do_z_float)\<rparr>, world0)) \<and>
   (\<exists>r. apply_stack (Suc 0) draw_seed [DoM do_z_float, DoM (DoMessenger Map.empty ''139'')]
          (msg_z\<lparr>intervener_id := Some (self_intervener_id do_z_float)\<rparr>)
          (warn_if_stamped msg_z world0) = Some (Returned r)) \<and>
   (\<exists>r. pyro_sample (apply_stack (Suc 0) draw_seed [DoM do_z_float, DoM (DoMessenger Map.empty ''139'')])
          do_z_float msg_z world0 = Some r)"
proof -
  have h1: "data do_z_float (name msg_z) \<noteq> None" by (simp add: do_z_float_def msg_z_def)
  have h2: "intervener_id msg_z \<noteq> Some (self_intervener_id do_z_float)" by (simp add: msg_z_def)
  have h3: "\<forall>h \<in> set [DoM do_z_float, DoM (DoMessenger Map.empty ''139'')].
              \<exists>e. h = DoM e \<and> (e = do_z_float \<or> data e (name msg_z) = None)"
    by simp
  show ?thesis
    using h1 h2 fork_recursion [where ap = apply_return and w' = world0 and k = 0 and draw = draw_seed and w = world0, OF h1 h2 h3]
    by blast
qed

end
